theory Spec2Isabelle
  imports Main
begin

section \<open>JavaScript values\<close>

text \<open>
  Payloads, results and thrown values are untyped (\<open>any\<close>) in the sources. They are
  modelled by a datatype of JavaScript values. An object is the list of the properties
  that property access and the \<open>in\<close> operator can see, in the order in which the engine
  enumerates them. Numbers are carried as integers: no function below does arithmetic on
  them.
\<close>

datatype jsval =
    JUndefined
  | JNull
  | JBool bool
  | JNum int
  | JStr string
  | JArr "jsval list"
  | JObj "(string \<times> jsval) list"

text \<open>
  Every asynchronous call of the sources ends in one of three ways: it resolves with a
  value, it rejects (or throws) with a value, or its promise never settles.
\<close>

datatype 'a completion = Normal 'a | Throw jsval | Hang

text \<open>
  The object created by \<open>new Error(msg)\<close>, and the one the engine throws as TypeError
  (the wording of its message is the engine's; a fixed text stands for it).
\<close>

definition mkError :: "string \<Rightarrow> jsval" where
  "mkError msg = JObj [(''message'', JStr msg)]"

definition typeError :: "string \<Rightarrow> jsval" where
  "typeError msg = JObj [(''name'', JStr ''TypeError''), (''message'', JStr msg)]"

text \<open>
  \<open>key in v\<close>: defined on objects (arrays included) only; on a primitive, \<open>null\<close> or
  \<open>undefined\<close> the operator throws a TypeError.
\<close>

fun js_in :: "string \<Rightarrow> jsval \<Rightarrow> jsval + bool" where
  "js_in k (JObj ps) = Inr (map_of ps k \<noteq> None)"
| "js_in k (JArr xs) = Inr False"
| "js_in k v = Inl (typeError ''Cannot use in operator'')"

text \<open>\<open>v.key\<close> for a value on which property access does not throw.\<close>

fun js_get :: "jsval \<Rightarrow> string \<Rightarrow> jsval" where
  "js_get (JObj ps) k = (case map_of ps k of None \<Rightarrow> JUndefined | Some v \<Rightarrow> v)"
| "js_get v k = JUndefined"

section \<open>lib/intercom/server.ts\<close>

text \<open>
  Modelled from the spec: the envelopes of lib/intercom/types, which is not among the
  sources. The four tags of \<open>MessageType\<close> are those of section 6 of the specification;
  a request, a response and an error carry \<open>reqId\<close> and \<open>data\<close>, a subscription carries
  \<open>data\<close>, as the server reads and writes them. \<open>OtherMessage\<close> is any inbound value whose
  \<open>type\<close> is not \<open>MessageType.Req\<close> and none of the other tags (\<open>null\<close> included).
\<close>

datatype message =
    RequestMessage jsval jsval
  | ResponseMessage jsval jsval
  | ErrorMessage jsval jsval
  | SubscriptionMessage jsval
  | OtherMessage jsval

definition DEFAULT_ERROR_MESSAGE :: string where
  "DEFAULT_ERROR_MESSAGE = ''Unexpected error occured''"

type_synonym port = nat

text \<open>
  A request handler is a function object: \<open>hid\<close> is its identity (what \<open>!==\<close> compares)
  and \<open>run\<close> is what the promise it returns for a payload does.
\<close>

record ReqHandler =
  hid :: nat
  run :: "jsval \<Rightarrow> jsval completion"

text \<open>
  The world outside the server: \<open>portFault\<close> gives, for a port whose \<open>postMessage\<close>
  throws, the value thrown; \<open>outbox\<close> lists the messages the ports accepted, oldest
  first; \<open>invoked\<close> lists the handler calls made (handler identity and argument).
\<close>

record world =
  portFault :: "port \<Rightarrow> jsval option"
  outbox :: "(port \<times> message) list"
  invoked :: "(nat \<times> jsval) list"

record IntercomServer =
  ports :: "port list"
  reqHandlers :: "ReqHandler list"

definition postMessage :: "port \<Rightarrow> message \<Rightarrow> world \<Rightarrow> unit completion \<times> world" where
  "postMessage p m w =
     (case portFault w p of
        Some e \<Rightarrow> (Throw e, w)
      | None \<Rightarrow> (Normal (), w\<lparr>outbox := outbox w @ [(p, m)]\<rparr>))"

definition respond :: "port \<Rightarrow> message \<Rightarrow> world \<Rightarrow> unit completion \<times> world" where
  "respond p m w = postMessage p m w"

text \<open>
  \<open>ports\<close> is a Set: insertion order, no duplicates. (The listener that \<open>addPort\<close>
  attaches to the port is \<open>handleMessage\<close>, applied below to a message and its port.)
\<close>

definition addPort :: "port \<Rightarrow> IntercomServer \<Rightarrow> IntercomServer" where
  "addPort p srv = srv\<lparr>ports := (if p \<in> set (ports srv) then ports srv else ports srv @ [p])\<rparr>"

definition removePort :: "port \<Rightarrow> IntercomServer \<Rightarrow> IntercomServer" where
  "removePort p srv = srv\<lparr>ports := removeAll p (ports srv)\<rparr>"

definition addReqHandler :: "ReqHandler \<Rightarrow> IntercomServer \<Rightarrow> IntercomServer" where
  "addReqHandler h srv = srv\<lparr>reqHandlers := reqHandlers srv @ [h]\<rparr>"

definition removeReqHandler :: "ReqHandler \<Rightarrow> IntercomServer \<Rightarrow> IntercomServer" where
  "removeReqHandler h srv =
     srv\<lparr>reqHandlers := filter (\<lambda>g. hid g \<noteq> hid h) (reqHandlers srv)\<rparr>"

text \<open>\<open>handleRequest\<close> registers the handler; the closure it returns is \<open>removeReqHandler h\<close>.\<close>

definition handleRequest :: "ReqHandler \<Rightarrow> IntercomServer \<Rightarrow> IntercomServer" where
  "handleRequest h srv = addReqHandler h srv"

text \<open>\<open>this.ports.forEach(port => port.postMessage(msg))\<close>: an exception leaves the loop.\<close>

fun forEachPort :: "port list \<Rightarrow> message \<Rightarrow> world \<Rightarrow> unit completion \<times> world" where
  "forEachPort [] m w = (Normal (), w)"
| "forEachPort (p # ps) m w =
     (case postMessage p m w of
        (Normal u, w') \<Rightarrow> forEachPort ps m w'
      | (Throw e, w') \<Rightarrow> (Throw e, w')
      | (Hang, w') \<Rightarrow> (Hang, w'))"

definition broadcast :: "IntercomServer \<Rightarrow> jsval \<Rightarrow> world \<Rightarrow> unit completion \<times> world" where
  "broadcast srv d w = forEachPort (ports srv) (SubscriptionMessage d) w"

text \<open>
  The body of the \<open>try\<close> block: the \<open>for ... of\<close> loop over the handlers, each awaited in
  turn. The loop is run for one request in isolation, over the handlers registered when
  it starts.
\<close>

fun forHandlers ::
  "ReqHandler list \<Rightarrow> port \<Rightarrow> jsval \<Rightarrow> jsval \<Rightarrow> world \<Rightarrow> unit completion \<times> world" where
  "forHandlers [] p rid payload w = (Normal (), w)"
| "forHandlers (h # hs) p rid payload w =
     (let w1 = w\<lparr>invoked := invoked w @ [(hid h, payload)]\<rparr> in
      case run h payload of
        Throw e \<Rightarrow> (Throw e, w1)
      | Hang \<Rightarrow> (Hang, w1)
      | Normal d \<Rightarrow>
          if d \<noteq> JUndefined then respond p (ResponseMessage rid d) w1
          else forHandlers hs p rid payload w1)"

text \<open>The \<open>catch\<close> block: \<open>"message" in err ? err.message : DEFAULT_ERROR_MESSAGE\<close>.\<close>

definition catchBlock :: "port \<Rightarrow> jsval \<Rightarrow> jsval \<Rightarrow> world \<Rightarrow> unit completion \<times> world" where
  "catchBlock p rid err w =
     (case js_in ''message'' err of
        Inl te \<Rightarrow> (Throw te, w)
      | Inr has \<Rightarrow>
          respond p
            (ErrorMessage rid (if has then js_get err ''message'' else JStr DEFAULT_ERROR_MESSAGE))
            w)"

text \<open>
  \<open>handleMessage\<close> returns at once; for a request it has started the asynchronous
  function, whose completion is the first component (\<open>None\<close>: nothing was started).
\<close>

definition handleMessage ::
  "IntercomServer \<Rightarrow> message \<Rightarrow> port \<Rightarrow> world \<Rightarrow> unit completion option \<times> world" where
  "handleMessage srv msg p w =
     (case msg of
        RequestMessage rid payload \<Rightarrow>
          (case forHandlers (reqHandlers srv) p rid payload w of
             (Throw err, w1) \<Rightarrow>
               (case catchBlock p rid err w1 of (c, w2) \<Rightarrow> (Some c, w2))
           | (c, w1) \<Rightarrow> (Some c, w1))
      | _ \<Rightarrow> (None, w))"

section \<open>lib/temple/back/pndops.ts\<close>

text \<open>
  A pending operation is an operation result (kept opaque) extended with the hash of its
  operation and the time it was added.
\<close>

record TemplePendingOperation =
  opResult :: jsval
  hash :: string
  addedAt :: string

text \<open>
  \<open>browser.storage.local\<close>, as far as this module uses it: under a pending-operations
  key it holds the array last written by \<open>set\<close>, or nothing. A key that is absent reads
  as \<open>undefined\<close>, here \<open>None\<close>.
\<close>

type_synonym storage = "string \<Rightarrow> TemplePendingOperation list option"

definition getKey :: "string \<Rightarrow> string \<Rightarrow> string" where
  "getKey accPkh netId = ''pndops_'' @ netId @ ''_'' @ accPkh"

text \<open>\<open>stored || []\<close>: an array is truthy, \<open>undefined\<close> is not.\<close>

definition getAll :: "storage \<Rightarrow> string \<Rightarrow> string \<Rightarrow> TemplePendingOperation list" where
  "getAll st accPkh netId =
     (case st (getKey accPkh netId) of None \<Rightarrow> [] | Some pendingOperations \<Rightarrow> pendingOperations)"

text \<open>
  \<open>set\<close> goes through a queue of concurrency one; run to completion it has written the
  array under the key. (\<open>set\<close>, \<open>append\<close> and \<open>remove\<close> carry the suffix \<open>_ops\<close> here: the
  first two names are taken in HOL.)
\<close>

definition set_ops :: "storage \<Rightarrow> string \<Rightarrow> string \<Rightarrow> TemplePendingOperation list \<Rightarrow> storage" where
  "set_ops st accPkh netId ops = st(getKey accPkh netId \<mapsto> ops)"

definition append_ops :: "storage \<Rightarrow> string \<Rightarrow> string \<Rightarrow> TemplePendingOperation list \<Rightarrow> storage" where
  "append_ops st accPkh netId ops =
     (let currentItems = getAll st accPkh netId
      in set_ops st accPkh netId (ops @ currentItems))"

definition remove_ops :: "storage \<Rightarrow> string \<Rightarrow> string \<Rightarrow> string list \<Rightarrow> storage" where
  "remove_ops st accPkh netId opHashes =
     (let currentItems = getAll st accPkh netId
      in set_ops st accPkh netId
           (filter (\<lambda>item. hash item \<notin> set opHashes) currentItems))"

text \<open>\<open>fromOpResults\<close>, with the default \<open>addedAt\<close> (the clock) passed by the caller.\<close>

definition fromOpResults :: "jsval list \<Rightarrow> string \<Rightarrow> string \<Rightarrow> TemplePendingOperation list" where
  "fromOpResults opResults h added =
     map (\<lambda>r. \<lparr>opResult = r, hash = h, addedAt = added\<rparr>) (rev opResults)"

section \<open>lib/thanos/back.ts\<close>

text \<open>
  Modelled from the spec: the request and response variants of lib/thanos/types, which is
  not among the sources. The eleven pairs that \<open>processRequest\<close> names carry the fields
  it reads and writes; the other thirteen are the remaining entries of the catalogue of
  section 6 of the specification, with the fields listed there.
\<close>

datatype ThanosRequest =
    GetStateRequest
  | NewWalletRequest string "string option"
  | UnlockRequest string
  | LockRequest
  | CreateAccountRequest
  | RevealPrivateKeyRequest nat string
  | RevealMnemonicRequest string
  | EditAccountRequest nat string
  | ImportAccountRequest string
  | ImportFundraiserAccountRequest string string string
  | SignRequest nat string "string option"
  | ImportMnemonicAccountRequest string "string option" "string option"
  | ImportManagedAccountRequest string string string
  | ImportWatchOnlyAccountRequest string "string option"
  | CreateLedgerAccountRequest string "string option"
  | UpdateSettingsRequest jsval
  | GetPendingOpsRequest string string
  | RemovePendingOpsRequest string string "string list"
  | ConfirmRequest string bool
  | GetConfirmationPayloadRequest string
  | RevealPublicKeyRequest string
  | SubmitOperationsRequest string string string "jsval list"
  | GetDAppSessionsRequest
  | RemoveDAppSessionRequest string

datatype ThanosResponse =
    GetStateResponse jsval
  | NewWalletResponse
  | UnlockResponse
  | LockResponse
  | CreateAccountResponse
  | RevealPrivateKeyResponse string
  | RevealMnemonicResponse string
  | EditAccountResponse
  | ImportAccountResponse
  | ImportFundraiserAccountResponse
  | SignResponse jsval
  | ImportMnemonicAccountResponse
  | ImportManagedAccountResponse
  | ImportWatchOnlyAccountResponse
  | CreateLedgerAccountResponse
  | UpdateSettingsResponse
  | GetPendingOpsResponse "jsval list"
  | RemovePendingOpsResponse
  | ConfirmResponse
  | GetConfirmationPayloadResponse jsval
  | RevealPublicKeyResponse string
  | SubmitOperationsResponse string
  | GetDAppSessionsResponse jsval
  | RemoveDAppSessionResponse jsval

text \<open>The operation a variant belongs to: \<open>XRequest\<close> and \<open>XResponse\<close> are paired by \<open>X\<close>.\<close>

datatype Operation =
    GetState | NewWallet | Unlock | Lock | CreateAccount | RevealPrivateKey
  | RevealMnemonic | EditAccount | ImportAccount | ImportFundraiserAccount | Sign
  | ImportMnemonicAccount | ImportManagedAccount | ImportWatchOnlyAccount
  | CreateLedgerAccount | UpdateSettings | GetPendingOps | RemovePendingOps | Confirm
  | GetConfirmationPayload | RevealPublicKey | SubmitOperations | GetDAppSessions
  | RemoveDAppSession

fun requestOperation :: "ThanosRequest \<Rightarrow> Operation" where
  "requestOperation GetStateRequest = GetState"
| "requestOperation (NewWalletRequest password mnemonic) = NewWallet"
| "requestOperation (UnlockRequest password) = Unlock"
| "requestOperation LockRequest = Lock"
| "requestOperation CreateAccountRequest = CreateAccount"
| "requestOperation (RevealPrivateKeyRequest accountIndex password) = RevealPrivateKey"
| "requestOperation (RevealMnemonicRequest password) = RevealMnemonic"
| "requestOperation (EditAccountRequest accountIndex name) = EditAccount"
| "requestOperation (ImportAccountRequest privateKey) = ImportAccount"
| "requestOperation (ImportFundraiserAccountRequest email password mnemonic) = ImportFundraiserAccount"
| "requestOperation (SignRequest accountIndex bytes watermark) = Sign"
| "requestOperation (ImportMnemonicAccountRequest mnemonic password path) = ImportMnemonicAccount"
| "requestOperation (ImportManagedAccountRequest address chainId owner) = ImportManagedAccount"
| "requestOperation (ImportWatchOnlyAccountRequest address chainId) = ImportWatchOnlyAccount"
| "requestOperation (CreateLedgerAccountRequest name path) = CreateLedgerAccount"
| "requestOperation (UpdateSettingsRequest settings) = UpdateSettings"
| "requestOperation (GetPendingOpsRequest accountId netId) = GetPendingOps"
| "requestOperation (RemovePendingOpsRequest accountId netId opHashes) = RemovePendingOps"
| "requestOperation (ConfirmRequest cid decision) = Confirm"
| "requestOperation (GetConfirmationPayloadRequest cid) = GetConfirmationPayload"
| "requestOperation (RevealPublicKeyRequest accountId) = RevealPublicKey"
| "requestOperation (SubmitOperationsRequest cid accountId networkRpc opParams) = SubmitOperations"
| "requestOperation GetDAppSessionsRequest = GetDAppSessions"
| "requestOperation (RemoveDAppSessionRequest origin) = RemoveDAppSession"

fun responseOperation :: "ThanosResponse \<Rightarrow> Operation" where
  "responseOperation (GetStateResponse state) = GetState"
| "responseOperation NewWalletResponse = NewWallet"
| "responseOperation UnlockResponse = Unlock"
| "responseOperation LockResponse = Lock"
| "responseOperation CreateAccountResponse = CreateAccount"
| "responseOperation (RevealPrivateKeyResponse privateKey) = RevealPrivateKey"
| "responseOperation (RevealMnemonicResponse mnemonic) = RevealMnemonic"
| "responseOperation EditAccountResponse = EditAccount"
| "responseOperation ImportAccountResponse = ImportAccount"
| "responseOperation ImportFundraiserAccountResponse = ImportFundraiserAccount"
| "responseOperation (SignResponse result) = Sign"
| "responseOperation ImportMnemonicAccountResponse = ImportMnemonicAccount"
| "responseOperation ImportManagedAccountResponse = ImportManagedAccount"
| "responseOperation ImportWatchOnlyAccountResponse = ImportWatchOnlyAccount"
| "responseOperation CreateLedgerAccountResponse = CreateLedgerAccount"
| "responseOperation UpdateSettingsResponse = UpdateSettings"
| "responseOperation (GetPendingOpsResponse operations) = GetPendingOps"
| "responseOperation RemovePendingOpsResponse = RemovePendingOps"
| "responseOperation ConfirmResponse = Confirm"
| "responseOperation (GetConfirmationPayloadResponse payload) = GetConfirmationPayload"
| "responseOperation (RevealPublicKeyResponse publicKey) = RevealPublicKey"
| "responseOperation (SubmitOperationsResponse opHash) = SubmitOperations"
| "responseOperation (GetDAppSessionsResponse sessions) = GetDAppSessions"
| "responseOperation (RemoveDAppSessionResponse sessions) = RemoveDAppSession"

text \<open>
  The functions of lib/thanos/back/actions, which is not among the sources, are taken as
  parameters: each field is what the action does when called (\<open>Inl\<close>: it rejects with
  that value).
\<close>

record Actions =
  getFrontState :: "jsval + jsval"
  registerNewWallet :: "string \<Rightarrow> string option \<Rightarrow> jsval + unit"
  unlock :: "string \<Rightarrow> jsval + unit"
  lock :: "jsval + unit"
  createHDAccount :: "jsval + unit"
  revealPrivateKey :: "nat \<Rightarrow> string \<Rightarrow> jsval + string"
  revealMnemonic :: "string \<Rightarrow> jsval + string"
  editAccount :: "nat \<Rightarrow> string \<Rightarrow> jsval + unit"
  importAccount :: "string \<Rightarrow> jsval + unit"
  importFundraiserAccount :: "string \<Rightarrow> string \<Rightarrow> string \<Rightarrow> jsval + unit"
  sign :: "nat \<Rightarrow> string \<Rightarrow> string option \<Rightarrow> jsval + jsval"

text \<open>\<open>await action; return response\<close>: a rejection of the action is that of the branch.\<close>

definition andThen :: "jsval + 'a \<Rightarrow> ('a \<Rightarrow> ThanosResponse) \<Rightarrow> jsval + ThanosResponse option" where
  "andThen r mk = (case r of Inl e \<Rightarrow> Inl e | Inr v \<Rightarrow> Inr (Some (mk v)))"

text \<open>
  The \<open>switch\<close> of \<open>processRequest\<close>. It has no \<open>default\<close>: for any other request type the
  function returns \<open>undefined\<close>, here \<open>Inr None\<close>.
\<close>

fun processRequest :: "Actions \<Rightarrow> ThanosRequest \<Rightarrow> jsval + ThanosResponse option" where
  "processRequest acts GetStateRequest =
     andThen (getFrontState acts) (\<lambda>state. GetStateResponse state)"
| "processRequest acts (NewWalletRequest password mnemonic) =
     andThen (registerNewWallet acts password mnemonic) (\<lambda>_. NewWalletResponse)"
| "processRequest acts (UnlockRequest password) =
     andThen (unlock acts password) (\<lambda>_. UnlockResponse)"
| "processRequest acts LockRequest =
     andThen (lock acts) (\<lambda>_. LockResponse)"
| "processRequest acts CreateAccountRequest =
     andThen (createHDAccount acts) (\<lambda>_. CreateAccountResponse)"
| "processRequest acts (RevealPrivateKeyRequest accountIndex password) =
     andThen (revealPrivateKey acts accountIndex password) (\<lambda>privateKey. RevealPrivateKeyResponse privateKey)"
| "processRequest acts (RevealMnemonicRequest password) =
     andThen (revealMnemonic acts password) (\<lambda>mnemonic. RevealMnemonicResponse mnemonic)"
| "processRequest acts (EditAccountRequest accountIndex name) =
     andThen (editAccount acts accountIndex name) (\<lambda>_. EditAccountResponse)"
| "processRequest acts (ImportAccountRequest privateKey) =
     andThen (importAccount acts privateKey) (\<lambda>_. ImportAccountResponse)"
| "processRequest acts (ImportFundraiserAccountRequest email password mnemonic) =
     andThen (importFundraiserAccount acts email password mnemonic) (\<lambda>_. ImportFundraiserAccountResponse)"
| "processRequest acts (SignRequest accountIndex bytes watermark) =
     andThen (sign acts accountIndex bytes watermark) (\<lambda>result. SignResponse result)"
| "processRequest acts req = Inr None"

text \<open>The case labels of \<open>processRequest\<close>, as operations.\<close>

definition handledOperations :: "Operation list" where
  "handledOperations =
     [GetState, NewWallet, Unlock, Lock, CreateAccount, RevealPrivateKey, RevealMnemonic,
      EditAccount, ImportAccount, ImportFundraiserAccount, Sign]"

section \<open>The front-end client: useTempleClient, TaquitoWallet, TempleSigner\<close>

subsection \<open>Confirmation state and the notification subscriber\<close>

record Confirmation =
  confId :: string
  confPayload :: jsval

text \<open>
  Modelled from the spec: the notifications of lib/temple/types, which is not among the
  sources, with the fields the subscriber reads (the catalogue of section 6 of the
  specification lists the same three). \<open>OtherNotification\<close> is any other message, \<open>null\<close>
  included.
\<close>

datatype TempleNotification =
    StateUpdated
  | ConfirmationRequested string jsval
  | ConfirmationExpired string
  | OtherNotification

text \<open>
  The state of the hook: the \<open>confirmation\<close> state variable, the \<open>confirmationIdRef\<close>
  reference (\<open>None\<close> is \<open>null\<close>), and the number of calls of \<open>revalidate\<close> made so far.
\<close>

record hookState =
  confirmation :: "Confirmation option"
  confirmationIdRef :: "string option"
  revalidateCalls :: nat

definition setConfirmation :: "Confirmation option \<Rightarrow> hookState \<Rightarrow> hookState" where
  "setConfirmation c s = s\<lparr>confirmation := c\<rparr>"

definition resetConfirmation :: "hookState \<Rightarrow> hookState" where
  "resetConfirmation s = setConfirmation None (s\<lparr>confirmationIdRef := None\<rparr>)"

definition revalidate :: "hookState \<Rightarrow> hookState" where
  "revalidate s = s\<lparr>revalidateCalls := Suc (revalidateCalls s)\<rparr>"

text \<open>The function passed to \<open>intercom.subscribe\<close>.\<close>

fun subscriber :: "TempleNotification \<Rightarrow> hookState \<Rightarrow> hookState" where
  "subscriber StateUpdated s = revalidate s"
| "subscriber (ConfirmationRequested i p) s =
     (if Some i = confirmationIdRef s
      then setConfirmation (Some \<lparr>confId = i, confPayload = p\<rparr>) s
      else s)"
| "subscriber (ConfirmationExpired i) s =
     (if Some i = confirmationIdRef s then resetConfirmation s else s)"
| "subscriber OtherNotification s = s"

subsection \<open>Requests of the wallet and the signer\<close>

text \<open>
  The three requests that the wallet and the signer build, with the fields they set in
  the order of the source, and what \<open>intercom.request\<close> may resolve with: one of the
  three responses they expect (with the field they read), a response of another type, an
  object without \<open>type\<close>, or a value that is not an object. In the sources the tags are
  members of \<open>TempleMessageType\<close> (lib/temple/types, not among the sources); the prefix
  keeps them apart from the variants of lib/thanos above.
\<close>

datatype TempleRequest =
    Temple_SignRequest string string string "string option"
  | Temple_OperationsRequest string string string "jsval list"
  | Temple_RevealPublicKeyRequest string

datatype TempleResponse =
    Temple_SignResponse jsval
  | Temple_OperationsResponse string
  | Temple_RevealPublicKeyResponse string
  | Temple_OtherResponse
  | NoTypeField
  | NotAnObject

text \<open>
  What the client takes from outside the sources: \<open>intercom.request\<close> (lib/intercom),
  \<open>buf2hex(toBuffer(_))\<close> on a byte array, and the unary \<open>+\<close> on a value.
\<close>

record ClientDeps =
  transport :: "TempleRequest \<Rightarrow> TempleResponse completion"
  buf2hex :: "nat list \<Rightarrow> string"
  toNumber :: "jsval \<Rightarrow> jsval"

datatype event = CallbackInvoked string | Transmitted TempleRequest

text \<open>
  The client's surroundings: \<open>idSource\<close> is the sequence of strings that successive
  calls of \<open>nanoid()\<close> return and \<open>idsDrawn\<close> the number of calls made; \<open>trace\<close> records, in
  order, each call of a before-callback and each request handed to the transport;
  \<open>caller\<close> is the state that the caller's callback works on.
\<close>

record 'c io =
  idSource :: "nat \<Rightarrow> string"
  idsDrawn :: nat
  trace :: "event list"
  caller :: 'c

type_synonym 'c callback = "string \<Rightarrow> 'c \<Rightarrow> unit completion \<times> 'c"

definition nanoid :: "'c io \<Rightarrow> string \<times> 'c io" where
  "nanoid w = (idSource w (idsDrawn w), w\<lparr>idsDrawn := Suc (idsDrawn w)\<rparr>)"

text \<open>\<open>if (cb) { cb(id); }\<close>\<close>

fun callIfPresent :: "'c callback option \<Rightarrow> string \<Rightarrow> 'c io \<Rightarrow> unit completion \<times> 'c io" where
  "callIfPresent None i w = (Normal (), w)"
| "callIfPresent (Some cb) i w =
     (case cb i (caller w) of
        (c, st) \<Rightarrow> (c, w\<lparr>trace := trace w @ [CallbackInvoked i], caller := st\<rparr>))"

definition invalidResponse :: jsval where
  "invalidResponse = mkError ''Invalid response recieved''"

definition request :: "ClientDeps \<Rightarrow> TempleRequest \<Rightarrow> 'c io \<Rightarrow> TempleResponse completion \<times> 'c io" where
  "request deps req w =
     (let w1 = w\<lparr>trace := trace w @ [Transmitted req]\<rparr> in
      case transport deps req of
        Throw e \<Rightarrow> (Throw e, w1)
      | Hang \<Rightarrow> (Hang, w1)
      | Normal res \<Rightarrow>
          (case res of
             NotAnObject \<Rightarrow> (Throw (typeError ''Cannot use in operator''), w1)
           | NoTypeField \<Rightarrow> (Throw invalidResponse, w1)
           | _ \<Rightarrow> (Normal res, w1)))"

definition getPublicKey :: "ClientDeps \<Rightarrow> string \<Rightarrow> 'c io \<Rightarrow> string completion \<times> 'c io" where
  "getPublicKey deps accountPublicKeyHash w =
     (case request deps (Temple_RevealPublicKeyRequest accountPublicKeyHash) w of
        (Normal res, w1) \<Rightarrow>
          (case res of
             Temple_RevealPublicKeyResponse publicKey \<Rightarrow> (Normal publicKey, w1)
           | _ \<Rightarrow> (Throw invalidResponse, w1))
      | (Throw e, w1) \<Rightarrow> (Throw e, w1)
      | (Hang, w1) \<Rightarrow> (Hang, w1))"

subsection \<open>formatOpParams\<close>

text \<open>Writing a property: in place when the object has it, at the end otherwise.\<close>

fun setProp :: "string \<Rightarrow> jsval \<Rightarrow> (string \<times> jsval) list \<Rightarrow> (string \<times> jsval) list" where
  "setProp k v [] = [(k, v)]"
| "setProp k v (p # ps) = (if fst p = k then (k, v) # ps else p # setProp k v ps)"

text \<open>
  \<open>op.kind\<close> throws on \<open>null\<close> and \<open>undefined\<close>; on any other value that is not an object
  with this property it is \<open>undefined\<close>, and the \<open>default\<close> branch returns \<open>op\<close>.
\<close>

fun formatOpParams :: "(jsval \<Rightarrow> jsval) \<Rightarrow> jsval \<Rightarrow> jsval + jsval" where
  "formatOpParams unaryPlus JUndefined = Inl (typeError ''Cannot read properties of undefined'')"
| "formatOpParams unaryPlus JNull = Inl (typeError ''Cannot read properties of null'')"
| "formatOpParams unaryPlus (JObj ps) =
     (if js_get (JObj ps) ''kind'' = JStr ''origination'' then
        Inr (JObj (setProp ''mutez'' (JBool True) ps))
      else if js_get (JObj ps) ''kind'' = JStr ''transaction'' then
        (let destination = js_get (JObj ps) ''destination'';
             amount = js_get (JObj ps) ''amount'';
             parameters = js_get (JObj ps) ''parameters'';
             txRest = filter (\<lambda>p. fst p \<notin> set [''destination'', ''amount'', ''parameters'']) ps
         in Inr (JObj
              (setProp ''parameter'' parameters
                (setProp ''mutez'' (JBool True)
                  (setProp ''amount'' (unaryPlus amount)
                    (setProp ''to'' destination txRest))))))
      else Inr (JObj ps))"
| "formatOpParams unaryPlus op = Inr op"

text \<open>\<open>xs.map(f)\<close> for an \<open>f\<close> that may throw: the first exception ends the map.\<close>

fun mapThrowing :: "('a \<Rightarrow> jsval + 'b) \<Rightarrow> 'a list \<Rightarrow> jsval + 'b list" where
  "mapThrowing f [] = Inr []"
| "mapThrowing f (x # xs) =
     (case f x of
        Inl e \<Rightarrow> Inl e
      | Inr y \<Rightarrow> (case mapThrowing f xs of Inl e \<Rightarrow> Inl e | Inr ys \<Rightarrow> Inr (y # ys)))"

subsection \<open>TaquitoWallet and TempleSigner\<close>

record 'c TaquitoWallet =
  walletPkh :: string
  walletRpc :: string
  onBeforeSend :: "'c callback option"

record 'c TempleSigner =
  signerPkh :: string
  onBeforeSign :: "'c callback option"

definition sendOperations ::
  "ClientDeps \<Rightarrow> 'c TaquitoWallet \<Rightarrow> jsval list \<Rightarrow> 'c io \<Rightarrow> string completion \<times> 'c io" where
  "sendOperations deps wallet opParams w =
     (case nanoid w of
        (i, w1) \<Rightarrow>
          (case callIfPresent (onBeforeSend wallet) i w1 of
             (Throw e, w2) \<Rightarrow> (Throw e, w2)
           | (Hang, w2) \<Rightarrow> (Hang, w2)
           | (Normal u, w2) \<Rightarrow>
               (case mapThrowing (formatOpParams (toNumber deps)) opParams of
                  Inl e \<Rightarrow> (Throw e, w2)
                | Inr formatted \<Rightarrow>
                    (case request deps
                            (Temple_OperationsRequest i (walletPkh wallet) (walletRpc wallet) formatted)
                            w2 of
                       (Throw e, w3) \<Rightarrow> (Throw e, w3)
                     | (Hang, w3) \<Rightarrow> (Hang, w3)
                     | (Normal res, w3) \<Rightarrow>
                         (case res of
                            Temple_OperationsResponse opHash \<Rightarrow> (Normal opHash, w3)
                          | _ \<Rightarrow> (Throw invalidResponse, w3))))))"

definition publicKeyHash :: "'c TempleSigner \<Rightarrow> string completion" where
  "publicKeyHash signer = Normal (signerPkh signer)"

definition publicKey :: "ClientDeps \<Rightarrow> 'c TempleSigner \<Rightarrow> 'c io \<Rightarrow> string completion \<times> 'c io" where
  "publicKey deps signer w = getPublicKey deps (signerPkh signer) w"

definition secretKey :: "'c TempleSigner \<Rightarrow> string completion" where
  "secretKey signer = Throw (mkError ''Secret key cannot be exposed'')"

text \<open>\<open>TempleSigner.sign\<close> (the name \<open>sign\<close> is the action's above).\<close>

definition signer_sign ::
  "ClientDeps \<Rightarrow> 'c TempleSigner \<Rightarrow> string \<Rightarrow> nat list option \<Rightarrow> 'c io \<Rightarrow> jsval completion \<times> 'c io" where
  "signer_sign deps signer bytes watermark w =
     (case nanoid w of
        (i, w1) \<Rightarrow>
          (case callIfPresent (onBeforeSign signer) i w1 of
             (Throw e, w2) \<Rightarrow> (Throw e, w2)
           | (Hang, w2) \<Rightarrow> (Hang, w2)
           | (Normal u, w2) \<Rightarrow>
               (case request deps
                       (Temple_SignRequest (signerPkh signer) i bytes
                          (map_option (buf2hex deps) watermark))
                       w2 of
                  (Throw e, w3) \<Rightarrow> (Throw e, w3)
                | (Hang, w3) \<Rightarrow> (Hang, w3)
                | (Normal res, w3) \<Rightarrow>
                    (case res of
                       Temple_SignResponse result \<Rightarrow> (Normal result, w3)
                     | _ \<Rightarrow> (Throw invalidResponse, w3)))))"

text \<open>The callbacks that the hook supplies: both store the id in \<open>confirmationIdRef\<close>.\<close>

definition storeConfirmationId :: "hookState callback" where
  "storeConfirmationId i s = (Normal (), s\<lparr>confirmationIdRef := Some i\<rparr>)"

definition createTaquitoWallet :: "string \<Rightarrow> string \<Rightarrow> hookState TaquitoWallet" where
  "createTaquitoWallet sourcePkh networkRpc =
     \<lparr>walletPkh = sourcePkh, walletRpc = networkRpc, onBeforeSend = Some storeConfirmationId\<rparr>"

definition createTaquitoSigner :: "string \<Rightarrow> hookState TempleSigner" where
  "createTaquitoSigner sourcePkh =
     \<lparr>signerPkh = sourcePkh, onBeforeSign = Some storeConfirmationId\<rparr>"

section \<open>Sample inputs\<close>

text \<open>Concrete servers, worlds and clients at which the theorems below are instantiated.\<close>

definition world0 :: world where
  "world0 = \<lparr>portFault = (\<lambda>p. None), outbox = [], invoked = []\<rparr>"

definition portDown :: jsval where
  "portDown = mkError ''Attempting to use a disconnected port object''"

definition worldPort1Down :: world where
  "worldPort1Down =
     \<lparr>portFault = (\<lambda>p. if p = 1 then Some portDown else None), outbox = [], invoked = []\<rparr>"

definition declines :: ReqHandler where
  "declines = \<lparr>hid = 1, run = (\<lambda>payload. Normal JUndefined)\<rparr>"

definition answers :: ReqHandler where
  "answers = \<lparr>hid = 2, run = (\<lambda>payload. Normal (JStr ''pong''))\<rparr>"

definition throwsString :: ReqHandler where
  "throwsString = \<lparr>hid = 3, run = (\<lambda>payload. Throw (JStr ''boom''))\<rparr>"

definition rejectsNull :: ReqHandler where
  "rejectsNull = \<lparr>hid = 4, run = (\<lambda>payload. Throw JNull)\<rparr>"

definition lateAnswer :: ReqHandler where
  "lateAnswer = \<lparr>hid = 5, run = (\<lambda>payload. Normal (JStr ''late''))\<rparr>"

definition pingRequest :: message where
  "pingRequest = RequestMessage (JNum 7) (JStr ''ping'')"

definition serverStringThrower :: IntercomServer where
  "serverStringThrower = \<lparr>ports = [0], reqHandlers = [throwsString]\<rparr>"

definition serverNullThenAnswer :: IntercomServer where
  "serverNullThenAnswer = \<lparr>ports = [0], reqHandlers = [rejectsNull, answers]\<rparr>"

definition serverThreeHandlers :: IntercomServer where
  "serverThreeHandlers = \<lparr>ports = [0], reqHandlers = [declines, answers, lateAnswer]\<rparr>"

definition serverOnlyDeclines :: IntercomServer where
  "serverOnlyDeclines = \<lparr>ports = [0], reqHandlers = [declines]\<rparr>"

definition serverThreePorts :: IntercomServer where
  "serverThreePorts = \<lparr>ports = [0, 1, 2], reqHandlers = []\<rparr>"

definition opA :: TemplePendingOperation where
  "opA = \<lparr>opResult = JNull, hash = ''opA'', addedAt = ''t1''\<rparr>"

definition opB :: TemplePendingOperation where
  "opB = \<lparr>opResult = JNull, hash = ''opB'', addedAt = ''t2''\<rparr>"

definition emptyStorage :: storage where
  "emptyStorage = (\<lambda>k. None)"

definition sampleActions :: Actions where
  "sampleActions =
     \<lparr>getFrontState = Inr (JObj [(''status'', JNum 0)]),
      registerNewWallet = (\<lambda>password mnemonic. Inr ()),
      unlock = (\<lambda>password. if password = ''good'' then Inr () else Inl (mkError ''Invalid password'')),
      lock = Inr (),
      createHDAccount = Inr (),
      revealPrivateKey = (\<lambda>accountIndex password. Inr ''edsk''),
      revealMnemonic = (\<lambda>password. Inr ''abandon ability''),
      editAccount = (\<lambda>accountIndex name. Inr ()),
      importAccount = (\<lambda>privateKey. Inr ()),
      importFundraiserAccount = (\<lambda>email password mnemonic. Inr ()),
      sign = (\<lambda>accountIndex bytes watermark. Inr (JStr ''sig''))\<rparr>"

definition hook0 :: hookState where
  "hook0 = \<lparr>confirmation = None, confirmationIdRef = None, revalidateCalls = 0\<rparr>"

definition hookAwaiting :: hookState where
  "hookAwaiting = \<lparr>confirmation = None, confirmationIdRef = Some ''mine'', revalidateCalls = 0\<rparr>"

definition hexByte :: "nat \<Rightarrow> string" where
  "hexByte b = [''0123456789abcdef'' ! (b div 16 mod 16), ''0123456789abcdef'' ! (b mod 16)]"

text \<open>
  A transport that answers each request with the response of its type, and the
  hexadecimal encoding of a byte array. The unary \<open>+\<close> is not fixed by the sample: it stays
  the argument \<open>unaryPlus\<close>.
\<close>

definition sampleDeps :: "(jsval \<Rightarrow> jsval) \<Rightarrow> ClientDeps" where
  "sampleDeps unaryPlus =
     \<lparr>transport =
        (\<lambda>req. case req of
           Temple_SignRequest sourcePkh i bytes watermark \<Rightarrow> Normal (Temple_SignResponse (JStr ''sig''))
         | Temple_OperationsRequest i sourcePkh networkRpc opParams \<Rightarrow> Normal (Temple_OperationsResponse ''oo1'')
         | Temple_RevealPublicKeyRequest accountPublicKeyHash \<Rightarrow> Normal (Temple_RevealPublicKeyResponse ''edpk'')),
      buf2hex = (\<lambda>bytes. concat (map hexByte bytes)),
      toNumber = unaryPlus\<rparr>"

text \<open>A client that has drawn one id (the string \<open>x\<close>) before; the next one is \<open>xx\<close>.\<close>

definition io1 :: "hookState io" where
  "io1 = \<lparr>idSource = (\<lambda>n. replicate (Suc n) CHR ''x''), idsDrawn = 1, trace = [], caller = hook0\<rparr>"

section \<open>Request multiplexer: dispatch\<close>

text \<open>Handlers that resolve with \<open>undefined\<close> are called and passed over, in order.\<close>

lemma forHandlers_prefix:
  "\<forall>g\<in>set pre. run g payload = Normal JUndefined \<Longrightarrow>
   forHandlers (pre @ rest) p rid payload w =
   forHandlers rest p rid payload (w\<lparr>invoked := invoked w @ map (\<lambda>g. (hid g, payload)) pre\<rparr>)"
proof (induction pre arbitrary: w)
  case Nil
  then show ?case by simp
next
  case (Cons q pre)
  then show ?case by (simp add: Let_def)
qed

text \<open>
  C4. For a request with payload \<open>payload\<close> and id \<open>rid\<close> arriving on a port that
  accepts messages: the handlers are called in registration order with the payload; when
  the handlers before \<open>h\<close> resolve with \<open>undefined\<close> and \<open>h\<close> resolves with \<open>d\<close>, not
  \<open>undefined\<close>, exactly the handlers up to \<open>h\<close> are called and the one message sent is
  the Response carrying \<open>d\<close> and \<open>rid\<close>; when every handler resolves with \<open>undefined\<close>, all
  are called and nothing is sent. Registration appends the handler to the list.
\<close>

theorem dispatch_first_defined_result:
  "(reqHandlers srv = pre @ h # post
      \<and> (\<forall>g\<in>set pre. run g payload = Normal JUndefined)
      \<and> run h payload = Normal d \<and> d \<noteq> JUndefined \<and> portFault w p = None
    \<longrightarrow> handleMessage srv (RequestMessage rid payload) p w =
          (Some (Normal ()),
           w\<lparr>invoked := invoked w @ map (\<lambda>g. (hid g, payload)) (pre @ [h]),
             outbox := outbox w @ [(p, ResponseMessage rid d)]\<rparr>))
   \<and> ((\<forall>g\<in>set (reqHandlers srv). run g payload = Normal JUndefined)
    \<longrightarrow> handleMessage srv (RequestMessage rid payload) p w =
          (Some (Normal ()),
           w\<lparr>invoked := invoked w @ map (\<lambda>g. (hid g, payload)) (reqHandlers srv)\<rparr>))
   \<and> reqHandlers (handleRequest h srv) = reqHandlers srv @ [h]"
proof (intro conjI impI)
  assume a: "reqHandlers srv = pre @ h # post
      \<and> (\<forall>g\<in>set pre. run g payload = Normal JUndefined)
      \<and> run h payload = Normal d \<and> d \<noteq> JUndefined \<and> portFault w p = None"
  then have pre: "\<forall>g\<in>set pre. run g payload = Normal JUndefined" by simp
  from a forHandlers_prefix [OF pre, of "h # post" p rid w]
  show "handleMessage srv (RequestMessage rid payload) p w =
          (Some (Normal ()),
           w\<lparr>invoked := invoked w @ map (\<lambda>g. (hid g, payload)) (pre @ [h]),
             outbox := outbox w @ [(p, ResponseMessage rid d)]\<rparr>)"
    by (simp add: handleMessage_def Let_def respond_def postMessage_def)
next
  assume all: "\<forall>g\<in>set (reqHandlers srv). run g payload = Normal JUndefined"
  from forHandlers_prefix [OF all, of "[]" p rid w]
  show "handleMessage srv (RequestMessage rid payload) p w =
          (Some (Normal ()),
           w\<lparr>invoked := invoked w @ map (\<lambda>g. (hid g, payload)) (reqHandlers srv)\<rparr>)"
    by (simp add: handleMessage_def)
next
  show "reqHandlers (handleRequest h srv) = reqHandlers srv @ [h]"
    by (simp add: handleRequest_def addReqHandler_def)
qed

text \<open>
  At three handlers, of which the first declines and the second answers, the third is
  not called; at a single declining handler nothing is sent.
\<close>

theorem dispatch_first_defined_result_witness:
  "handleMessage serverThreeHandlers pingRequest 0 world0 =
     (Some (Normal ()),
      world0\<lparr>invoked := [(1, JStr ''ping''), (2, JStr ''ping'')],
             outbox := [(0, ResponseMessage (JNum 7) (JStr ''pong''))]\<rparr>)
   \<and> handleMessage serverOnlyDeclines pingRequest 0 world0 =
     (Some (Normal ()), world0\<lparr>invoked := [(1, JStr ''ping'')]\<rparr>)"
proof -
  have h1: "reqHandlers serverThreeHandlers = [declines] @ answers # [lateAnswer]
      \<and> (\<forall>g\<in>set [declines]. run g (JStr ''ping'') = Normal JUndefined)
      \<and> run answers (JStr ''ping'') = Normal (JStr ''pong'') \<and> JStr ''pong'' \<noteq> JUndefined
      \<and> portFault world0 0 = None"
    by (simp add: serverThreeHandlers_def declines_def answers_def world0_def)
  have h2: "\<forall>g\<in>set (reqHandlers serverOnlyDeclines). run g (JStr ''ping'') = Normal JUndefined"
    by (simp add: serverOnlyDeclines_def declines_def)
  note r1 = dispatch_first_defined_result [where srv = serverThreeHandlers and pre = "[declines]"
      and h = answers and post = "[lateAnswer]" and payload = "JStr ''ping''" and d = "JStr ''pong''"
      and w = world0 and p = 0 and rid = "JNum 7", THEN conjunct1, THEN mp, OF h1]
  note r2 = dispatch_first_defined_result [where srv = serverOnlyDeclines and payload = "JStr ''ping''"
      and w = world0 and p = 0 and rid = "JNum 7", THEN conjunct2, THEN conjunct1, THEN mp, OF h2]
  have e: "reqHandlers serverOnlyDeclines = [declines]" "invoked world0 = []" "outbox world0 = []"
    by (simp_all add: serverOnlyDeclines_def world0_def)
  from r1 r2 show ?thesis
    by (simp add: pingRequest_def declines_def answers_def e)
qed

section \<open>Request multiplexer: a handler that throws\<close>

text \<open>The loop ends at the first handler that throws, and the \<open>catch\<close> block runs.\<close>

lemma handleMessage_handler_throws:
  assumes "reqHandlers srv = pre @ h # post"
    and "\<forall>g\<in>set pre. run g payload = Normal JUndefined"
    and "run h payload = Throw e"
  shows "handleMessage srv (RequestMessage rid payload) p w =
     (case catchBlock p rid e (w\<lparr>invoked := invoked w @ map (\<lambda>g. (hid g, payload)) (pre @ [h])\<rparr>) of
        (c, w2) \<Rightarrow> (Some c, w2))"
  using assms forHandlers_prefix [OF assms(2), of "h # post" p rid w]
  by (simp add: handleMessage_def Let_def)

text \<open>For a thrown object the \<open>catch\<close> block sends the Error envelope.\<close>

lemma catchBlock_object:
  "portFault w p = None \<Longrightarrow>
   catchBlock p rid (JObj ps) w =
     (Normal (),
      w\<lparr>outbox := outbox w @
          [(p, ErrorMessage rid
                 (case map_of ps ''message'' of None \<Rightarrow> JStr DEFAULT_ERROR_MESSAGE | Some m \<Rightarrow> m))]\<rparr>)"
  by (auto simp: catchBlock_def respond_def postMessage_def split: option.splits)

text \<open>
  Whatever the handler throws, the handlers after it are not called, and the only
  message that the dispatch can send is an Error envelope with the id of the request.
\<close>

lemma handler_throws_later_not_called:
  assumes "reqHandlers srv = pre @ h # post"
    and "\<forall>g\<in>set pre. run g payload = Normal JUndefined"
    and "run h payload = Throw e"
  shows "invoked (snd (handleMessage srv (RequestMessage rid payload) p w)) =
           invoked w @ map (\<lambda>g. (hid g, payload)) (pre @ [h])
         \<and> (outbox (snd (handleMessage srv (RequestMessage rid payload) p w)) = outbox w
            \<or> (\<exists>m. outbox (snd (handleMessage srv (RequestMessage rid payload) p w)) =
                       outbox w @ [(p, ErrorMessage rid m)]))"
  unfolding handleMessage_handler_throws [OF assms]
  by (auto simp: catchBlock_def respond_def postMessage_def split: sum.splits option.splits)

text \<open>
  C1. A handler throws the string \<open>boom\<close>. In the \<open>catch\<close> block the \<open>in\<close> operator
  throws a TypeError on the string: the asynchronous function rejects with it and no
  Error envelope is sent.
\<close>

theorem thrown_string_sends_no_error_envelope:
  "fst (handleMessage serverStringThrower pingRequest 0 world0) =
     Some (Throw (typeError ''Cannot use in operator''))
   \<and> outbox (snd (handleMessage serverStringThrower pingRequest 0 world0)) = []
   \<and> invoked (snd (handleMessage serverStringThrower pingRequest 0 world0)) = [(3, JStr ''ping'')]"
  by (simp add: handleMessage_def serverStringThrower_def pingRequest_def throwsString_def
      world0_def catchBlock_def Let_def)

text \<open>
  C9. The first handler rejects with \<open>null\<close>, the second would answer. The second is
  not called and no Response is sent, but the dispatch ends with the rejection of the
  asynchronous function by a TypeError, not with an Error envelope.
\<close>

theorem rejected_null_ends_without_envelope:
  "invoked (snd (handleMessage serverNullThenAnswer pingRequest 0 world0)) = [(4, JStr ''ping'')]
   \<and> outbox (snd (handleMessage serverNullThenAnswer pingRequest 0 world0)) = []
   \<and> fst (handleMessage serverNullThenAnswer pingRequest 0 world0) =
       Some (Throw (typeError ''Cannot use in operator''))"
  by (simp add: handleMessage_def serverNullThenAnswer_def pingRequest_def rejectsNull_def
      answers_def world0_def catchBlock_def Let_def)

section \<open>Broadcast\<close>

lemma forEachPort_prefix:
  "\<forall>p\<in>set pre. portFault w p = None \<Longrightarrow>
   forEachPort (pre @ rest) m w =
   forEachPort rest m (w\<lparr>outbox := outbox w @ map (\<lambda>p. (p, m)) pre\<rparr>)"
proof (induction pre arbitrary: w)
  case Nil
  then show ?case by simp
next
  case (Cons q pre)
  then show ?case by (simp add: postMessage_def)
qed

lemma forEachPort_outbox:
  "outbox (snd (forEachPort ps m w)) =
     outbox w @ map (\<lambda>p. (p, m)) (takeWhile (\<lambda>p. portFault w p = None) ps)"
proof (induction ps arbitrary: w)
  case Nil
  then show ?case by simp
next
  case (Cons q ps)
  then show ?case by (simp add: postMessage_def split: option.splits)
qed

text \<open>
  C2, as stated, fails: ports 0, 1 and 2 are registered, \<open>postMessage\<close> throws on port 1
  only, and port 2, which accepts messages, receives nothing.
\<close>

theorem broadcast_stops_at_failing_port:
  "2 \<in> set (ports serverThreePorts)
   \<and> portFault worldPort1Down 2 = None
   \<and> outbox (snd (broadcast serverThreePorts (JStr ''StateUpdated'') worldPort1Down)) =
       [(0, SubscriptionMessage (JStr ''StateUpdated''))]
   \<and> fst (broadcast serverThreePorts (JStr ''StateUpdated'') worldPort1Down) = Throw portDown"
  by (simp add: broadcast_def serverThreePorts_def worldPort1Down_def postMessage_def)

text \<open>
  C2, amended. \<open>broadcast\<close> sends the Subscription envelope to the registered ports in
  registration order, up to the first port whose \<open>postMessage\<close> throws: when no
  registered port throws, every registered port receives it once; when one throws,
  the ports before it have received the envelope, the exception leaves \<open>broadcast\<close>, and
  the ports after it receive nothing.
\<close>

theorem broadcast_until_first_failure:
  "outbox (snd (broadcast srv d w)) =
     outbox w @ map (\<lambda>p. (p, SubscriptionMessage d)) (takeWhile (\<lambda>p. portFault w p = None) (ports srv))
   \<and> ((\<forall>p\<in>set (ports srv). portFault w p = None) \<longrightarrow>
        broadcast srv d w =
          (Normal (), w\<lparr>outbox := outbox w @ map (\<lambda>p. (p, SubscriptionMessage d)) (ports srv)\<rparr>))
   \<and> (ports srv = pre @ q # post \<and> (\<forall>p\<in>set pre. portFault w p = None) \<and> portFault w q = Some e \<longrightarrow>
        broadcast srv d w =
          (Throw e, w\<lparr>outbox := outbox w @ map (\<lambda>p. (p, SubscriptionMessage d)) pre\<rparr>))"
proof (intro conjI impI)
  show "outbox (snd (broadcast srv d w)) =
     outbox w @ map (\<lambda>p. (p, SubscriptionMessage d)) (takeWhile (\<lambda>p. portFault w p = None) (ports srv))"
    by (simp add: broadcast_def forEachPort_outbox)
next
  assume ok: "\<forall>p\<in>set (ports srv). portFault w p = None"
  from forEachPort_prefix [OF ok, of "[]" "SubscriptionMessage d"]
  show "broadcast srv d w =
          (Normal (), w\<lparr>outbox := outbox w @ map (\<lambda>p. (p, SubscriptionMessage d)) (ports srv)\<rparr>)"
    by (simp add: broadcast_def)
next
  assume h: "ports srv = pre @ q # post \<and> (\<forall>p\<in>set pre. portFault w p = None) \<and> portFault w q = Some e"
  then have ok: "\<forall>p\<in>set pre. portFault w p = None" by simp
  from h forEachPort_prefix [OF ok, of "q # post" "SubscriptionMessage d"]
  show "broadcast srv d w =
          (Throw e, w\<lparr>outbox := outbox w @ map (\<lambda>p. (p, SubscriptionMessage d)) pre\<rparr>)"
    by (simp add: broadcast_def postMessage_def)
qed

theorem broadcast_until_first_failure_witness:
  "broadcast serverThreePorts JNull world0 =
     (Normal (),
      world0\<lparr>outbox := [(0, SubscriptionMessage JNull), (1, SubscriptionMessage JNull),
                        (2, SubscriptionMessage JNull)]\<rparr>)
   \<and> broadcast serverThreePorts JNull worldPort1Down =
     (Throw portDown, worldPort1Down\<lparr>outbox := [(0, SubscriptionMessage JNull)]\<rparr>)"
proof -
  have h1: "\<forall>p\<in>set (ports serverThreePorts). portFault world0 p = None"
    by (simp add: world0_def)
  have h2: "ports serverThreePorts = [0] @ 1 # [2]
      \<and> (\<forall>p\<in>set [0]. portFault worldPort1Down p = None)
      \<and> portFault worldPort1Down 1 = Some portDown"
    by (simp add: serverThreePorts_def worldPort1Down_def)
  note r1 = broadcast_until_first_failure [where srv = serverThreePorts and d = JNull and w = world0,
      THEN conjunct2, THEN conjunct1, THEN mp, OF h1]
  note r2 = broadcast_until_first_failure [where srv = serverThreePorts and d = JNull
      and w = worldPort1Down and pre = "[0]" and q = 1 and post = "[2]" and e = portDown,
      THEN conjunct2, THEN conjunct2, THEN mp, OF h2]
  have e: "ports serverThreePorts = [0, 1, 2]" "outbox world0 = []" "outbox worldPort1Down = []"
    by (simp_all add: serverThreePorts_def world0_def worldPort1Down_def)
  from r1 r2 show ?thesis
    by (simp add: e)
qed

section \<open>Pending operations\<close>

lemma getAll_set_ops: "getAll (set_ops st accPkh netId ops) accPkh netId = ops"
  by (simp add: getAll_def set_ops_def)

text \<open>
  C5. Starting with nothing stored under the key of an account and a network, appending
  \<open>O1\<close>, then appending \<open>O2\<close>, then removing the hash of \<open>O1\<close> leaves exactly \<open>[O2]\<close>
  under the key, when the two hashes differ. An append puts the new operations in front
  of the stored ones, so the stored sequence is newest first.
\<close>

theorem append_then_remove:
  "(hash O1 \<noteq> hash O2 \<and> getAll st accPkh netId = [] \<longrightarrow>
      getAll
        (remove_ops (append_ops (append_ops st accPkh netId [O1]) accPkh netId [O2])
           accPkh netId [hash O1])
        accPkh netId = [O2])
   \<and> getAll (append_ops st accPkh netId ops) accPkh netId = ops @ getAll st accPkh netId
   \<and> getAll (append_ops (append_ops st accPkh netId [O1]) accPkh netId [O2]) accPkh netId =
       O2 # O1 # getAll st accPkh netId"
  by (auto simp: append_ops_def remove_ops_def getAll_set_ops Let_def)

theorem append_then_remove_witness:
  "getAll
     (remove_ops (append_ops (append_ops emptyStorage ''tz1'' ''mainnet'' [opA]) ''tz1'' ''mainnet'' [opB])
        ''tz1'' ''mainnet'' [hash opA])
     ''tz1'' ''mainnet'' = [opB]"
proof -
  have h: "hash opA \<noteq> hash opB \<and> getAll emptyStorage ''tz1'' ''mainnet'' = []"
    by (simp add: opA_def opB_def getAll_def emptyStorage_def)
  from append_then_remove [where ?O1.0 = opA and ?O2.0 = opB and st = emptyStorage
      and accPkh = "''tz1''" and netId = "''mainnet''", THEN conjunct1, THEN mp, OF h]
  show ?thesis .
qed

text \<open>
  C10. When nothing is stored under the pending-operations key of the account and the
  network, \<open>getAll\<close> returns the empty list (and in every case a list, never \<open>undefined\<close>
  or \<open>null\<close>).
\<close>

theorem getAll_nothing_stored:
  "st (getKey accPkh netId) = None \<Longrightarrow> getAll st accPkh netId = []"
  by (simp add: getAll_def)

theorem getAll_nothing_stored_witness:
  "emptyStorage (getKey ''tz1'' ''mainnet'') = None \<and> getAll emptyStorage ''tz1'' ''mainnet'' = []"
proof -
  have h: "emptyStorage (getKey ''tz1'' ''mainnet'') = None"
    by (simp add: emptyStorage_def)
  from h getAll_nothing_stored [where st = emptyStorage and accPkh = "''tz1''" and netId = "''mainnet''", OF h]
  show ?thesis by simp
qed

section \<open>The dispatcher of lib/thanos/back.ts\<close>

text \<open>
  C6, as stated, fails: an UpdateSettings request, an entry of the catalogue, reaches no
  branch of the \<open>switch\<close>, and \<open>processRequest\<close> returns \<open>undefined\<close>.
\<close>

theorem update_settings_not_dispatched:
  "processRequest sampleActions (UpdateSettingsRequest JNull) = Inr None"
  by simp

text \<open>
  C6, amended. \<open>processRequest\<close> has a branch for exactly eleven operations: GetState,
  NewWallet, Unlock, Lock, CreateAccount, RevealPrivateKey, RevealMnemonic, EditAccount,
  ImportAccount, ImportFundraiserAccount and Sign. For a request of one of them it
  calls the action of that operation with the fields of the request and awaits it: when
  the action rejects, \<open>processRequest\<close> rejects with the same value; when it resolves,
  \<open>processRequest\<close> returns the paired response variant, carrying the action's result
  where the response has a field. For every other request it returns \<open>undefined\<close>.
\<close>

theorem processRequest_dispatch:
  "processRequest acts GetStateRequest =
     (case getFrontState acts of
        Inl e \<Rightarrow> Inl e | Inr state \<Rightarrow> Inr (Some (GetStateResponse state)))
   \<and> processRequest acts (NewWalletRequest password mnemonic) =
     (case registerNewWallet acts password mnemonic of
        Inl e \<Rightarrow> Inl e | Inr u \<Rightarrow> Inr (Some NewWalletResponse))
   \<and> processRequest acts (UnlockRequest password) =
     (case unlock acts password of
        Inl e \<Rightarrow> Inl e | Inr u \<Rightarrow> Inr (Some UnlockResponse))
   \<and> processRequest acts LockRequest =
     (case lock acts of
        Inl e \<Rightarrow> Inl e | Inr u \<Rightarrow> Inr (Some LockResponse))
   \<and> processRequest acts CreateAccountRequest =
     (case createHDAccount acts of
        Inl e \<Rightarrow> Inl e | Inr u \<Rightarrow> Inr (Some CreateAccountResponse))
   \<and> processRequest acts (RevealPrivateKeyRequest accountIndex password) =
     (case revealPrivateKey acts accountIndex password of
        Inl e \<Rightarrow> Inl e | Inr privateKey \<Rightarrow> Inr (Some (RevealPrivateKeyResponse privateKey)))
   \<and> processRequest acts (RevealMnemonicRequest password) =
     (case revealMnemonic acts password of
        Inl e \<Rightarrow> Inl e | Inr phrase \<Rightarrow> Inr (Some (RevealMnemonicResponse phrase)))
   \<and> processRequest acts (EditAccountRequest accountIndex name) =
     (case editAccount acts accountIndex name of
        Inl e \<Rightarrow> Inl e | Inr u \<Rightarrow> Inr (Some EditAccountResponse))
   \<and> processRequest acts (ImportAccountRequest secret) =
     (case importAccount acts secret of
        Inl e \<Rightarrow> Inl e | Inr u \<Rightarrow> Inr (Some ImportAccountResponse))
   \<and> processRequest acts (ImportFundraiserAccountRequest email password phrase) =
     (case importFundraiserAccount acts email password phrase of
        Inl e \<Rightarrow> Inl e | Inr u \<Rightarrow> Inr (Some ImportFundraiserAccountResponse))
   \<and> processRequest acts (SignRequest accountIndex bytes watermark) =
     (case sign acts accountIndex bytes watermark of
        Inl e \<Rightarrow> Inl e | Inr result \<Rightarrow> Inr (Some (SignResponse result)))
   \<and> (requestOperation req \<notin> set handledOperations \<longrightarrow> processRequest acts req = Inr None)
   \<and> (requestOperation req \<in> set handledOperations \<longrightarrow> processRequest acts req \<noteq> Inr None)
   \<and> (processRequest acts req = Inr (Some res) \<longrightarrow>
        responseOperation res = requestOperation req)"
proof -
  have branches:
    "processRequest acts GetStateRequest =
       (case getFrontState acts of
          Inl e \<Rightarrow> Inl e | Inr state \<Rightarrow> Inr (Some (GetStateResponse state)))"
    "processRequest acts (NewWalletRequest password mnemonic) =
       (case registerNewWallet acts password mnemonic of
          Inl e \<Rightarrow> Inl e | Inr u \<Rightarrow> Inr (Some NewWalletResponse))"
    "processRequest acts (UnlockRequest password) =
       (case unlock acts password of
          Inl e \<Rightarrow> Inl e | Inr u \<Rightarrow> Inr (Some UnlockResponse))"
    "processRequest acts LockRequest =
       (case lock acts of
          Inl e \<Rightarrow> Inl e | Inr u \<Rightarrow> Inr (Some LockResponse))"
    "processRequest acts CreateAccountRequest =
       (case createHDAccount acts of
          Inl e \<Rightarrow> Inl e | Inr u \<Rightarrow> Inr (Some CreateAccountResponse))"
    "processRequest acts (RevealPrivateKeyRequest accountIndex password) =
       (case revealPrivateKey acts accountIndex password of
          Inl e \<Rightarrow> Inl e | Inr privateKey \<Rightarrow> Inr (Some (RevealPrivateKeyResponse privateKey)))"
    "processRequest acts (RevealMnemonicRequest password) =
       (case revealMnemonic acts password of
          Inl e \<Rightarrow> Inl e | Inr phrase \<Rightarrow> Inr (Some (RevealMnemonicResponse phrase)))"
    "processRequest acts (EditAccountRequest accountIndex name) =
       (case editAccount acts accountIndex name of
          Inl e \<Rightarrow> Inl e | Inr u \<Rightarrow> Inr (Some EditAccountResponse))"
    "processRequest acts (ImportAccountRequest secret) =
       (case importAccount acts secret of
          Inl e \<Rightarrow> Inl e | Inr u \<Rightarrow> Inr (Some ImportAccountResponse))"
    "processRequest acts (ImportFundraiserAccountRequest email password phrase) =
       (case importFundraiserAccount acts email password phrase of
          Inl e \<Rightarrow> Inl e | Inr u \<Rightarrow> Inr (Some ImportFundraiserAccountResponse))"
    "processRequest acts (SignRequest accountIndex bytes watermark) =
       (case sign acts accountIndex bytes watermark of
          Inl e \<Rightarrow> Inl e | Inr result \<Rightarrow> Inr (Some (SignResponse result)))"
    by (simp_all add: andThen_def)
  have others: "requestOperation req \<notin> set handledOperations \<longrightarrow> processRequest acts req = Inr None"
    by (cases req) (simp_all add: handledOperations_def)
  have handled: "requestOperation req \<in> set handledOperations \<longrightarrow> processRequest acts req \<noteq> Inr None"
    by (cases req) (simp_all add: handledOperations_def andThen_def split: sum.splits)
  have paired: "processRequest acts req = Inr (Some res) \<longrightarrow>
        responseOperation res = requestOperation req"
    by (cases req) (auto simp: andThen_def split: sum.splits)
  from branches others handled paired show ?thesis
    by (intro conjI)
qed

text \<open>
  With the sample actions: Unlock with the right password resolves and is answered by
  UnlockResponse, with a wrong password the action's rejection is that of
  \<open>processRequest\<close>; GetDAppSessions has no branch.
\<close>

theorem processRequest_dispatch_witness:
  "processRequest sampleActions (UnlockRequest ''good'') = Inr (Some UnlockResponse)
   \<and> processRequest sampleActions (UnlockRequest ''bad'') = Inl (mkError ''Invalid password'')
   \<and> processRequest sampleActions (UnlockRequest ''good'') \<noteq> Inr None
   \<and> responseOperation UnlockResponse = requestOperation (UnlockRequest ''good'')
   \<and> processRequest sampleActions GetDAppSessionsRequest = Inr None"
proof -
  note t = processRequest_dispatch [where acts = sampleActions]
  have u: "unlock sampleActions ''good'' = Inr ()"
    "unlock sampleActions ''bad'' = Inl (mkError ''Invalid password'')"
    by (simp_all add: sampleActions_def)
  have r1: "processRequest sampleActions (UnlockRequest ''good'') = Inr (Some UnlockResponse)"
    using t [where password = "''good''", THEN conjunct2, THEN conjunct2, THEN conjunct1] u
    by simp
  have r2: "processRequest sampleActions (UnlockRequest ''bad'') = Inl (mkError ''Invalid password'')"
    using t [where password = "''bad''", THEN conjunct2, THEN conjunct2, THEN conjunct1] u
    by simp
  note tail = t [where req = "UnlockRequest ''good''" and res = UnlockResponse,
      THEN conjunct2, THEN conjunct2, THEN conjunct2, THEN conjunct2, THEN conjunct2,
      THEN conjunct2, THEN conjunct2, THEN conjunct2, THEN conjunct2, THEN conjunct2,
      THEN conjunct2]
  note tail' = t [where req = GetDAppSessionsRequest,
      THEN conjunct2, THEN conjunct2, THEN conjunct2, THEN conjunct2, THEN conjunct2,
      THEN conjunct2, THEN conjunct2, THEN conjunct2, THEN conjunct2, THEN conjunct2,
      THEN conjunct2]
  have h1: "requestOperation (UnlockRequest ''good'') \<in> set handledOperations"
    by (simp add: handledOperations_def)
  have h2: "requestOperation GetDAppSessionsRequest \<notin> set handledOperations"
    by (simp add: handledOperations_def)
  note r3 = tail [THEN conjunct2, THEN conjunct1, THEN mp, OF h1]
  note r4 = tail [THEN conjunct2, THEN conjunct2, THEN mp, OF r1]
  note r5 = tail' [THEN conjunct1, THEN mp, OF h2]
  from r1 r2 r3 r4 r5 show ?thesis by (intro conjI)
qed

section \<open>The front-end client\<close>

text \<open>
  C3. \<open>secretKey\<close> fails for every signer, with the error \<open>Secret key cannot be exposed\<close>;
  it never resolves with a key.
\<close>

theorem secretKey_always_fails:
  "secretKey signer = Throw (mkError ''Secret key cannot be exposed'')
   \<and> (\<nexists>k. secretKey signer = Normal k)"
  by (simp add: secretKey_def)

text \<open>
  C7. A ConfirmationRequested or ConfirmationExpired notification whose id is not the
  one held in \<open>confirmationIdRef\<close> leaves the state as it is; whenever a notification
  changes the stored confirmation or the reference, it is one of these two and its id
  is the one held.
\<close>

theorem foreign_confirmation_id_ignored:
  "(Some i \<noteq> confirmationIdRef s \<longrightarrow>
      subscriber (ConfirmationRequested i p) s = s \<and> subscriber (ConfirmationExpired i) s = s)
   \<and> (confirmation (subscriber msg s) \<noteq> confirmation s
        \<or> confirmationIdRef (subscriber msg s) \<noteq> confirmationIdRef s \<longrightarrow>
      (\<exists>j. confirmationIdRef s = Some j
           \<and> ((\<exists>q. msg = ConfirmationRequested j q) \<or> msg = ConfirmationExpired j)))"
proof -
  have a: "Some i \<noteq> confirmationIdRef s \<longrightarrow>
      subscriber (ConfirmationRequested i p) s = s \<and> subscriber (ConfirmationExpired i) s = s"
    by simp
  have b: "confirmation (subscriber msg s) \<noteq> confirmation s
        \<or> confirmationIdRef (subscriber msg s) \<noteq> confirmationIdRef s \<longrightarrow>
      (\<exists>j. confirmationIdRef s = Some j
           \<and> ((\<exists>q. msg = ConfirmationRequested j q) \<or> msg = ConfirmationExpired j))"
    by (cases msg) (auto simp: revalidate_def split: if_splits)
  from a b show ?thesis by (rule conjI)
qed

theorem foreign_confirmation_id_ignored_witness:
  "subscriber (ConfirmationRequested ''other'' JNull) hookAwaiting = hookAwaiting
   \<and> subscriber (ConfirmationExpired ''other'') hookAwaiting = hookAwaiting
   \<and> confirmation (subscriber (ConfirmationRequested ''mine'' JNull) hookAwaiting) \<noteq> confirmation hookAwaiting
   \<and> confirmationIdRef hookAwaiting = Some ''mine''"
proof -
  have h1: "Some ''other'' \<noteq> confirmationIdRef hookAwaiting"
    by (simp add: hookAwaiting_def)
  have h2: "confirmation (subscriber (ConfirmationRequested ''mine'' JNull) hookAwaiting) \<noteq> confirmation hookAwaiting
        \<or> confirmationIdRef (subscriber (ConfirmationRequested ''mine'' JNull) hookAwaiting) \<noteq> confirmationIdRef hookAwaiting"
    by (simp add: hookAwaiting_def setConfirmation_def)
  note r1 = foreign_confirmation_id_ignored [where i = "''other''" and s = hookAwaiting and p = JNull,
      THEN conjunct1, THEN mp, OF h1]
  note r2 = foreign_confirmation_id_ignored [where s = hookAwaiting
      and msg = "ConfirmationRequested ''mine'' JNull", THEN conjunct2, THEN mp, OF h2]
  from r1 r2 h2 show ?thesis by (auto simp: hookAwaiting_def setConfirmation_def)
qed

text \<open>The before-callback and the transport leave the source of ids as it is.\<close>

lemma callIfPresent_ids:
  "callIfPresent c i w = (r, w') \<Longrightarrow> idsDrawn w' = idsDrawn w \<and> idSource w' = idSource w"
  by (cases c) (auto split: prod.splits)

lemma request_ids:
  "request deps req w = (r, w') \<Longrightarrow> idsDrawn w' = idsDrawn w \<and> idSource w' = idSource w"
  by (auto simp: request_def Let_def split: completion.splits TempleResponse.splits)

lemma signer_sign_ids:
  "idsDrawn (snd (signer_sign deps signer bytes watermark w)) = Suc (idsDrawn w)
   \<and> idSource (snd (signer_sign deps signer bytes watermark w)) = idSource w"
  by (auto simp: signer_sign_def nanoid_def
      split: prod.splits completion.splits TempleResponse.splits
      dest!: callIfPresent_ids request_ids)

lemma sendOperations_ids:
  "idsDrawn (snd (sendOperations deps wallet opParams w)) = Suc (idsDrawn w)
   \<and> idSource (snd (sendOperations deps wallet opParams w)) = idSource w"
  by (auto simp: sendOperations_def nanoid_def
      split: prod.splits completion.splits TempleResponse.splits sum.splits
      dest!: callIfPresent_ids request_ids)

text \<open>
  With a before-callback that returns: the callback has worked on the caller's state,
  the request has gone to the transport, and the call ends as the transport's answer
  to that request makes it end.
\<close>

lemma signer_sign_result:
  assumes "onBeforeSign signer = Some cb"
    and "cb (idSource w (idsDrawn w)) (caller w) = (Normal (), st)"
  shows "signer_sign deps signer bytes watermark w =
     (case transport deps
             (Temple_SignRequest (signerPkh signer) (idSource w (idsDrawn w)) bytes
                (map_option (buf2hex deps) watermark)) of
        Throw e \<Rightarrow> Throw e
      | Hang \<Rightarrow> Hang
      | Normal res \<Rightarrow>
          (case res of
             Temple_SignResponse result \<Rightarrow> Normal result
           | NotAnObject \<Rightarrow> Throw (typeError ''Cannot use in operator'')
           | _ \<Rightarrow> Throw invalidResponse),
      w\<lparr>idsDrawn := Suc (idsDrawn w),
        trace := trace w @
          [CallbackInvoked (idSource w (idsDrawn w)),
           Transmitted (Temple_SignRequest (signerPkh signer) (idSource w (idsDrawn w)) bytes
                          (map_option (buf2hex deps) watermark))],
        caller := st\<rparr>)"
  using assms
  by (simp add: signer_sign_def nanoid_def request_def Let_def
      split: completion.splits TempleResponse.splits)

lemma sendOperations_result:
  assumes "onBeforeSend wallet = Some cb"
    and "cb (idSource w (idsDrawn w)) (caller w) = (Normal (), st)"
    and "mapThrowing (formatOpParams (toNumber deps)) opParams = Inr formatted"
  shows "sendOperations deps wallet opParams w =
     (case transport deps
             (Temple_OperationsRequest (idSource w (idsDrawn w)) (walletPkh wallet)
                (walletRpc wallet) formatted) of
        Throw e \<Rightarrow> Throw e
      | Hang \<Rightarrow> Hang
      | Normal res \<Rightarrow>
          (case res of
             Temple_OperationsResponse opHash \<Rightarrow> Normal opHash
           | NotAnObject \<Rightarrow> Throw (typeError ''Cannot use in operator'')
           | _ \<Rightarrow> Throw invalidResponse),
      w\<lparr>idsDrawn := Suc (idsDrawn w),
        trace := trace w @
          [CallbackInvoked (idSource w (idsDrawn w)),
           Transmitted (Temple_OperationsRequest (idSource w (idsDrawn w)) (walletPkh wallet)
                          (walletRpc wallet) formatted)],
        caller := st\<rparr>)"
  using assms
  by (simp add: sendOperations_def nanoid_def request_def Let_def
      split: completion.splits TempleResponse.splits)

text \<open>A before-callback that throws ends the call: no request goes to the transport.\<close>

lemma signer_sign_callback_throws:
  assumes "onBeforeSign signer = Some cb"
    and "cb (idSource w (idsDrawn w)) (caller w) = (Throw e, st)"
  shows "signer_sign deps signer bytes watermark w =
     (Throw e,
      w\<lparr>idsDrawn := Suc (idsDrawn w),
        trace := trace w @ [CallbackInvoked (idSource w (idsDrawn w))],
        caller := st\<rparr>)"
  using assms by (simp add: signer_sign_def nanoid_def)

text \<open>
  C8. Let \<open>i\<close> be the string that the next call of \<open>nanoid()\<close> returns and \<open>j\<close> the one
  after it. A call of \<open>sign\<close>, and a call of \<open>sendOperations\<close>, with a before-callback
  that returns: the callback is applied to \<open>i\<close> and the caller's state (the state after
  the call is the one the callback left); after it the request with \<open>i\<close> as its \<open>id\<close>
  field is given to the transport; the call ends as the transport's answer to that
  request makes it end. Every call takes exactly one string from \<open>nanoid()\<close>, so a call of
  \<open>sendOperations\<close> after the call of \<open>sign\<close> gives \<open>j\<close> to its callback and sends \<open>j\<close>: the
  ids of two calls are two successive results of \<open>nanoid()\<close>, never one result used twice.
\<close>

theorem before_callback_receives_request_id:
  assumes "i = idSource w (idsDrawn w)" and "j = idSource w (Suc (idsDrawn w))"
  shows
  "(onBeforeSign signer = Some cb \<and> cb i (caller w) = (Normal (), st) \<longrightarrow>
      signer_sign deps signer bytes watermark w =
        (case transport deps
                (Temple_SignRequest (signerPkh signer) i bytes
                   (map_option (buf2hex deps) watermark)) of
           Throw e \<Rightarrow> Throw e
         | Hang \<Rightarrow> Hang
         | Normal res \<Rightarrow>
             (case res of
                Temple_SignResponse result \<Rightarrow> Normal result
              | NotAnObject \<Rightarrow> Throw (typeError ''Cannot use in operator'')
              | _ \<Rightarrow> Throw invalidResponse),
         w\<lparr>idsDrawn := Suc (idsDrawn w),
           trace := trace w @
             [CallbackInvoked i,
              Transmitted (Temple_SignRequest (signerPkh signer) i bytes
                             (map_option (buf2hex deps) watermark))],
           caller := st\<rparr>))
   \<and> (onBeforeSend wallet = Some cb' \<and> cb' i (caller w) = (Normal (), st)
        \<and> mapThrowing (formatOpParams (toNumber deps)) opParams = Inr formatted \<longrightarrow>
      sendOperations deps wallet opParams w =
        (case transport deps
                (Temple_OperationsRequest i (walletPkh wallet) (walletRpc wallet) formatted) of
           Throw e \<Rightarrow> Throw e
         | Hang \<Rightarrow> Hang
         | Normal res \<Rightarrow>
             (case res of
                Temple_OperationsResponse opHash \<Rightarrow> Normal opHash
              | NotAnObject \<Rightarrow> Throw (typeError ''Cannot use in operator'')
              | _ \<Rightarrow> Throw invalidResponse),
         w\<lparr>idsDrawn := Suc (idsDrawn w),
           trace := trace w @
             [CallbackInvoked i,
              Transmitted (Temple_OperationsRequest i (walletPkh wallet) (walletRpc wallet)
                             formatted)],
           caller := st\<rparr>))
   \<and> (onBeforeSign signer = Some cb \<and> cb i (caller w) = (Normal (), st)
        \<and> onBeforeSend wallet = Some cb' \<and> cb' j st = (Normal (), st')
        \<and> mapThrowing (formatOpParams (toNumber deps)) opParams = Inr formatted \<longrightarrow>
      trace (snd (sendOperations deps wallet opParams
                    (snd (signer_sign deps signer bytes watermark w)))) =
        trace w @
          [CallbackInvoked i,
           Transmitted (Temple_SignRequest (signerPkh signer) i bytes
                          (map_option (buf2hex deps) watermark)),
           CallbackInvoked j,
           Transmitted (Temple_OperationsRequest j (walletPkh wallet) (walletRpc wallet)
                          formatted)]
      \<and> caller (snd (sendOperations deps wallet opParams
                        (snd (signer_sign deps signer bytes watermark w)))) = st')
   \<and> idsDrawn (snd (signer_sign deps signer bytes watermark w)) = Suc (idsDrawn w)
   \<and> idsDrawn (snd (sendOperations deps wallet opParams w)) = Suc (idsDrawn w)
   \<and> idSource (snd (signer_sign deps signer bytes watermark w)) = idSource w
   \<and> idSource (snd (sendOperations deps wallet opParams w)) = idSource w"
proof -
  have one: "onBeforeSign signer = Some cb \<and> cb i (caller w) = (Normal (), st) \<longrightarrow>
      signer_sign deps signer bytes watermark w =
        (case transport deps
                (Temple_SignRequest (signerPkh signer) i bytes
                   (map_option (buf2hex deps) watermark)) of
           Throw e \<Rightarrow> Throw e
         | Hang \<Rightarrow> Hang
         | Normal res \<Rightarrow>
             (case res of
                Temple_SignResponse result \<Rightarrow> Normal result
              | NotAnObject \<Rightarrow> Throw (typeError ''Cannot use in operator'')
              | _ \<Rightarrow> Throw invalidResponse),
         w\<lparr>idsDrawn := Suc (idsDrawn w),
           trace := trace w @
             [CallbackInvoked i,
              Transmitted (Temple_SignRequest (signerPkh signer) i bytes
                             (map_option (buf2hex deps) watermark))],
           caller := st\<rparr>)"
    using signer_sign_result [of signer cb w st deps bytes watermark]
    by (simp add: assms(1))
  have two: "onBeforeSend wallet = Some cb' \<and> cb' i (caller w) = (Normal (), st)
        \<and> mapThrowing (formatOpParams (toNumber deps)) opParams = Inr formatted \<longrightarrow>
      sendOperations deps wallet opParams w =
        (case transport deps
                (Temple_OperationsRequest i (walletPkh wallet) (walletRpc wallet) formatted) of
           Throw e \<Rightarrow> Throw e
         | Hang \<Rightarrow> Hang
         | Normal res \<Rightarrow>
             (case res of
                Temple_OperationsResponse opHash \<Rightarrow> Normal opHash
              | NotAnObject \<Rightarrow> Throw (typeError ''Cannot use in operator'')
              | _ \<Rightarrow> Throw invalidResponse),
         w\<lparr>idsDrawn := Suc (idsDrawn w),
           trace := trace w @
             [CallbackInvoked i,
              Transmitted (Temple_OperationsRequest i (walletPkh wallet) (walletRpc wallet)
                             formatted)],
           caller := st\<rparr>)"
    using sendOperations_result [of wallet cb' w st deps opParams formatted]
    by (simp add: assms(1))
  have three: "onBeforeSign signer = Some cb \<and> cb i (caller w) = (Normal (), st)
        \<and> onBeforeSend wallet = Some cb' \<and> cb' j st = (Normal (), st')
        \<and> mapThrowing (formatOpParams (toNumber deps)) opParams = Inr formatted \<longrightarrow>
      trace (snd (sendOperations deps wallet opParams
                    (snd (signer_sign deps signer bytes watermark w)))) =
        trace w @
          [CallbackInvoked i,
           Transmitted (Temple_SignRequest (signerPkh signer) i bytes
                          (map_option (buf2hex deps) watermark)),
           CallbackInvoked j,
           Transmitted (Temple_OperationsRequest j (walletPkh wallet) (walletRpc wallet)
                          formatted)]
      \<and> caller (snd (sendOperations deps wallet opParams
                        (snd (signer_sign deps signer bytes watermark w)))) = st'"
  proof
    assume a: "onBeforeSign signer = Some cb \<and> cb i (caller w) = (Normal (), st)
        \<and> onBeforeSend wallet = Some cb' \<and> cb' j st = (Normal (), st')
        \<and> mapThrowing (formatOpParams (toNumber deps)) opParams = Inr formatted"
    let ?w1 = "snd (signer_sign deps signer bytes watermark w)"
    from a have s1: "onBeforeSign signer = Some cb"
      and s2: "cb (idSource w (idsDrawn w)) (caller w) = (Normal (), st)"
      by (simp_all add: assms(1))
    have w1: "?w1 =
        w\<lparr>idsDrawn := Suc (idsDrawn w),
          trace := trace w @
            [CallbackInvoked i,
             Transmitted (Temple_SignRequest (signerPkh signer) i bytes
                            (map_option (buf2hex deps) watermark))],
          caller := st\<rparr>"
      by (simp add: signer_sign_result [OF s1 s2] assms(1))
    from a have c1: "onBeforeSend wallet = Some cb'"
      and c2: "cb' (idSource ?w1 (idsDrawn ?w1)) (caller ?w1) = (Normal (), st')"
      and c3: "mapThrowing (formatOpParams (toNumber deps)) opParams = Inr formatted"
      by (simp_all add: w1 assms(2))
    show "trace (snd (sendOperations deps wallet opParams ?w1)) =
        trace w @
          [CallbackInvoked i,
           Transmitted (Temple_SignRequest (signerPkh signer) i bytes
                          (map_option (buf2hex deps) watermark)),
           CallbackInvoked j,
           Transmitted (Temple_OperationsRequest j (walletPkh wallet) (walletRpc wallet)
                          formatted)]
      \<and> caller (snd (sendOperations deps wallet opParams ?w1)) = st'"
      unfolding sendOperations_result [OF c1 c2 c3]
      by (simp add: w1 assms(2))
  qed
  from one two three
    signer_sign_ids [of deps signer bytes watermark w]
    sendOperations_ids [of deps wallet opParams w]
  show ?thesis by (intro conjI) simp_all
qed

text \<open>
  The signer and the wallet that the hook creates, at a client that has drawn one id
  before: the id in \<open>confirmationIdRef\<close> after the call is the id sent.
\<close>

theorem before_callback_receives_request_id_witness:
  "\<forall>unaryPlus.
     signer_sign (sampleDeps unaryPlus) (createTaquitoSigner ''tz1'') ''03ff'' (Some [3]) io1 =
       (Normal (JStr ''sig''),
        io1\<lparr>idsDrawn := 2,
            trace := [CallbackInvoked ''xx'',
                      Transmitted (Temple_SignRequest ''tz1'' ''xx'' ''03ff'' (Some ''03''))],
            caller := hook0\<lparr>confirmationIdRef := Some ''xx''\<rparr>\<rparr>)
     \<and> sendOperations (sampleDeps unaryPlus) (createTaquitoWallet ''tz1'' ''rpc'')
         [JObj [(''kind'', JStr ''origination'')]] io1 =
       (Normal ''oo1'',
        io1\<lparr>idsDrawn := 2,
            trace := [CallbackInvoked ''xx'',
                      Transmitted (Temple_OperationsRequest ''xx'' ''tz1'' ''rpc''
                        [JObj [(''kind'', JStr ''origination''), (''mutez'', JBool True)]])],
            caller := hook0\<lparr>confirmationIdRef := Some ''xx''\<rparr>\<rparr>)
     \<and> trace (snd (sendOperations (sampleDeps unaryPlus) (createTaquitoWallet ''tz1'' ''rpc'')
                     [JObj [(''kind'', JStr ''origination'')]]
                     (snd (signer_sign (sampleDeps unaryPlus) (createTaquitoSigner ''tz1'')
                             ''03ff'' (Some [3]) io1)))) =
       [CallbackInvoked ''xx'',
        Transmitted (Temple_SignRequest ''tz1'' ''xx'' ''03ff'' (Some ''03'')),
        CallbackInvoked ''xxx'',
        Transmitted (Temple_OperationsRequest ''xxx'' ''tz1'' ''rpc''
          [JObj [(''kind'', JStr ''origination''), (''mutez'', JBool True)]])]"
proof (rule allI)
  fix unaryPlus
  let ?deps = "sampleDeps unaryPlus"
  let ?st = "hook0\<lparr>confirmationIdRef := Some ''xx''\<rparr>"
  let ?st' = "hook0\<lparr>confirmationIdRef := Some ''xxx''\<rparr>"
  let ?ops = "[JObj [(''kind'', JStr ''origination'')]]"
  let ?formatted = "[JObj [(''kind'', JStr ''origination''), (''mutez'', JBool True)]]"
  have i: "''xx'' = idSource io1 (idsDrawn io1)"
    and j: "''xxx'' = idSource io1 (Suc (idsDrawn io1))"
    by (simp_all add: io1_def numeral_3_eq_3)
  have f: "mapThrowing (formatOpParams (toNumber ?deps)) ?ops = Inr ?formatted"
    by simp
  have h1: "onBeforeSign (createTaquitoSigner ''tz1'') = Some storeConfirmationId
      \<and> storeConfirmationId ''xx'' (caller io1) = (Normal (), ?st)"
    by (simp add: createTaquitoSigner_def storeConfirmationId_def io1_def)
  have h2: "onBeforeSend (createTaquitoWallet ''tz1'' ''rpc'') = Some storeConfirmationId
      \<and> storeConfirmationId ''xx'' (caller io1) = (Normal (), ?st)
      \<and> mapThrowing (formatOpParams (toNumber ?deps)) ?ops = Inr ?formatted"
    using f by (simp add: createTaquitoWallet_def storeConfirmationId_def io1_def)
  have h3: "onBeforeSign (createTaquitoSigner ''tz1'') = Some storeConfirmationId
      \<and> storeConfirmationId ''xx'' (caller io1) = (Normal (), ?st)
      \<and> onBeforeSend (createTaquitoWallet ''tz1'' ''rpc'') = Some storeConfirmationId
      \<and> storeConfirmationId ''xxx'' ?st = (Normal (), ?st')
      \<and> mapThrowing (formatOpParams (toNumber ?deps)) ?ops = Inr ?formatted"
    using h1 f by (simp add: createTaquitoWallet_def storeConfirmationId_def)
  note t = before_callback_receives_request_id [where w = io1 and i = "''xx''" and j = "''xxx''"
      and deps = ?deps and signer = "createTaquitoSigner ''tz1''"
      and wallet = "createTaquitoWallet ''tz1'' ''rpc''"
      and cb = storeConfirmationId and cb' = storeConfirmationId and st = ?st and st' = ?st'
      and bytes = "''03ff''" and watermark = "Some [3]" and opParams = ?ops
      and formatted = ?formatted, OF i j]
  note r1 = t [THEN conjunct1, THEN mp, OF h1]
  note r2 = t [THEN conjunct2, THEN conjunct1, THEN mp, OF h2]
  note r3 = t [THEN conjunct2, THEN conjunct2, THEN conjunct1, THEN mp, OF h3, THEN conjunct1]
  have e: "trace io1 = []" "idsDrawn io1 = 1" "buf2hex ?deps [3] = ''03''"
    "signerPkh (createTaquitoSigner ''tz1'') = ''tz1''"
    "walletPkh (createTaquitoWallet ''tz1'' ''rpc'') = ''tz1''"
    "walletRpc (createTaquitoWallet ''tz1'' ''rpc'') = ''rpc''"
    by (simp_all add: io1_def sampleDeps_def hexByte_def createTaquitoSigner_def
        createTaquitoWallet_def)
  have tr: "transport ?deps (Temple_SignRequest ''tz1'' ''xx'' ''03ff'' (Some ''03'')) =
        Normal (Temple_SignResponse (JStr ''sig''))"
    "transport ?deps (Temple_OperationsRequest ''xx'' ''tz1'' ''rpc'' ?formatted) =
        Normal (Temple_OperationsResponse ''oo1'')"
    by (simp_all add: sampleDeps_def)
  from r1 r2 r3
  show "signer_sign ?deps (createTaquitoSigner ''tz1'') ''03ff'' (Some [3]) io1 =
       (Normal (JStr ''sig''),
        io1\<lparr>idsDrawn := 2,
            trace := [CallbackInvoked ''xx'',
                      Transmitted (Temple_SignRequest ''tz1'' ''xx'' ''03ff'' (Some ''03''))],
            caller := ?st\<rparr>)
     \<and> sendOperations ?deps (createTaquitoWallet ''tz1'' ''rpc'') ?ops io1 =
       (Normal ''oo1'',
        io1\<lparr>idsDrawn := 2,
            trace := [CallbackInvoked ''xx'',
                      Transmitted (Temple_OperationsRequest ''xx'' ''tz1'' ''rpc'' ?formatted)],
            caller := ?st\<rparr>)
     \<and> trace (snd (sendOperations ?deps (createTaquitoWallet ''tz1'' ''rpc'') ?ops
                     (snd (signer_sign ?deps (createTaquitoSigner ''tz1'')
                             ''03ff'' (Some [3]) io1)))) =
       [CallbackInvoked ''xx'',
        Transmitted (Temple_SignRequest ''tz1'' ''xx'' ''03ff'' (Some ''03'')),
        CallbackInvoked ''xxx'',
        Transmitted (Temple_OperationsRequest ''xxx'' ''tz1'' ''rpc'' ?formatted)]"
    by (simp add: e tr)
qed

end
